theory Spec2Isabelle
  imports Main "HOL-Library.AList" "HOL-Library.Sublist"
begin

section \<open>Strings as Python sees them\<close>

text \<open>
  A Python \<open>str\<close> is modelled as a \<open>string\<close>; a \<open>char\<close> stands for a code point below
  256. The helpers below are the library functions that \<open>litera.py\<close> calls
  (\<open>str.split\<close>, \<open>str.join\<close>, \<open>str.strip\<close>, \<open>str.replace\<close>, \<open>re.findall\<close>, ...),
  written out for the arguments the program passes.
\<close>

abbreviation nl :: char where
  "nl \<equiv> CHR 0x0A"

definition isspace :: "char \<Rightarrow> bool" where
  \<comment> \<open>\<open>str.isspace\<close> and the class \<open>\s\<close>, on code points below 256\<close>
  "isspace c = (let n = (of_char c :: nat) in
     (9 \<le> n \<and> n \<le> 13) \<or> (28 \<le> n \<and> n \<le> 32) \<or> n = 133 \<or> n = 160)"

definition isword :: "char \<Rightarrow> bool" where
  \<comment> \<open>the class \<open>\w\<close> of a \<open>str\<close> pattern, on code points below 256\<close>
  "isword c = (let n = (of_char c :: nat) in
     (48 \<le> n \<and> n \<le> 57) \<or> (65 \<le> n \<and> n \<le> 90) \<or> n = 95 \<or> (97 \<le> n \<and> n \<le> 122) \<or>
     n = 170 \<or> (178 \<le> n \<and> n \<le> 179) \<or> n = 181 \<or> (185 \<le> n \<and> n \<le> 186) \<or>
     (188 \<le> n \<and> n \<le> 190) \<or> (192 \<le> n \<and> n \<le> 214) \<or> (216 \<le> n \<and> n \<le> 246) \<or>
     (248 \<le> n \<and> n \<le> 255))"

definition lstrip :: "string \<Rightarrow> string" where
  "lstrip s = dropWhile isspace s"

definition rstrip :: "string \<Rightarrow> string" where
  "rstrip s = rev (dropWhile isspace (rev s))"

definition strip :: "string \<Rightarrow> string" where
  "strip s = rstrip (lstrip s)"

definition rstrip_nl :: "string \<Rightarrow> string" where
  \<comment> \<open>\<open>s.rstrip("\n")\<close>\<close>
  "rstrip_nl s = rev (dropWhile (\<lambda>c. c = nl) (rev s))"

definition endswith :: "string \<Rightarrow> string \<Rightarrow> bool" where
  "endswith s suf = suffix suf s"

fun split_on :: "char \<Rightarrow> string \<Rightarrow> string list" where
  \<comment> \<open>\<open>s.split(sep)\<close> for a separator of one character: never an empty list\<close>
  "split_on sep [] = [[]]"
| "split_on sep (c # cs) =
     (if c = sep then [] # split_on sep cs
      else (case split_on sep cs of [] \<Rightarrow> [[c]] | l # ls \<Rightarrow> (c # l) # ls))"

fun join_on :: "string \<Rightarrow> string list \<Rightarrow> string" where
  \<comment> \<open>\<open>sep.join(xs)\<close>\<close>
  "join_on sep [] = []"
| "join_on sep [x] = x"
| "join_on sep (x # y # zs) = x @ sep @ join_on sep (y # zs)"

fun split_ws_aux :: "string \<Rightarrow> string \<Rightarrow> string list" where
  "split_ws_aux cur [] = (if cur = [] then [] else [rev cur])"
| "split_ws_aux cur (c # cs) =
     (if isspace c then (if cur = [] then split_ws_aux [] cs else rev cur # split_ws_aux [] cs)
      else split_ws_aux (c # cur) cs)"

definition split_ws :: "string \<Rightarrow> string list" where
  \<comment> \<open>\<open>s.split()\<close>: the maximal runs of characters that are not whitespace\<close>
  "split_ws s = split_ws_aux [] s"

fun str_replace_ne :: "string \<Rightarrow> string \<Rightarrow> string \<Rightarrow> string" where
  \<comment> \<open>\<open>s.replace(old, new)\<close> for a non-empty \<open>old\<close>: every occurrence, left to right,
      none overlapping; after a match the scan resumes behind it\<close>
  "str_replace_ne old new [] = []"
| "str_replace_ne old new (c # cs) =
     (if prefix old (c # cs) then new @ str_replace_ne old new (drop (length old - 1) cs)
      else c # str_replace_ne old new cs)"

definition str_replace :: "string \<Rightarrow> string \<Rightarrow> string \<Rightarrow> string" where
  \<comment> \<open>with an empty \<open>old\<close> Python puts \<open>new\<close> before every character and at the end\<close>
  "str_replace old new s =
     (if old = [] then new @ concat (map (\<lambda>c. c # new) s) else str_replace_ne old new s)"

subsection \<open>The directive pattern\<close>

text \<open>
  Every pattern \<open>@name{(.*?)}\<close> of the program is a literal opening (\<open>@name{\<close>), a lazy run
  of characters other than the newline, and the first closing brace after it. The function
  \<open>until_close\<close> reads the lazy run: it returns the captured text and what follows the
  brace, or nothing when a newline or the end of the text comes before any brace.
\<close>

fun until_close :: "string \<Rightarrow> (string \<times> string) option" where
  "until_close [] = None"
| "until_close (c # cs) =
     (if c = CHR ''}'' then Some ([], cs)
      else if c = nl then None
      else (case until_close cs of None \<Rightarrow> None | Some (cap, rest) \<Rightarrow> Some (c # cap, rest)))"

function findall :: "string \<Rightarrow> string \<Rightarrow> string list" where
  \<comment> \<open>\<open>re.findall(opn + "(.*?)}", s)\<close>: the captured groups of the matches, left to
      right, each search starting where the match before it ended\<close>
  "findall opn [] = []"
| "findall opn (c # cs) =
     (if prefix opn (c # cs) then
        (case until_close (drop (length opn) (c # cs)) of
           Some (cap, rest) \<Rightarrow> cap # findall opn rest
         | None \<Rightarrow> findall opn cs)
      else findall opn cs)"
  by pat_completeness auto
termination
proof (relation "measure (\<lambda>(opn, s). length s)")
  show "wf (measure (\<lambda>(opn, s). length s))" by simp
next
  fix opn :: string and c cs x2 x y
  assume a: "until_close (drop (length opn) (c # cs)) = Some x2" "(x, y) = x2"
  have shorter: "until_close s = Some (cap, rest) \<Longrightarrow> length rest < length s"
    for s cap rest
    by (induction s arbitrary: cap rest) (auto split: if_splits option.splits)
  from a have "length y < length (drop (length opn) (c # cs))"
    using shorter[of "drop (length opn) (c # cs)" x y] by simp
  then show "((opn, y), (opn, c # cs)) \<in> measure (\<lambda>(opn, s). length s)"
    by simp
qed simp_all

function re_search :: "string \<Rightarrow> string \<Rightarrow> bool" where
  \<comment> \<open>\<open>re.search(opn + ".*?}", s)\<close> as a truth value\<close>
  "re_search opn [] = False"
| "re_search opn (c # cs) =
     (if prefix opn (c # cs) \<and> until_close (drop (length opn) (c # cs)) \<noteq> None then True
      else re_search opn cs)"
  by pat_completeness auto
termination
  by (relation "measure (\<lambda>(opn, s). length s)") simp_all

definition extract_last_match :: "string \<Rightarrow> string \<Rightarrow> string" where
  "extract_last_match opn content =
     (let matches = findall opn content in if matches = [] then [] else last matches)"

section \<open>The document model\<close>

datatype error =
  ValueError | FileNotFoundError | IndexError | KeyError | RuntimeError | RecursionError

text \<open>
  The classes \<open>Block\<close>, \<open>FileBlock\<close>, \<open>CodeBlock\<close> and \<open>DocumentationBlock\<close> are one record;
  a documentation block leaves the fields of a fragment empty. The field \<open>btype\<close> is the
  attribute \<open>type\<close>, the field \<open>bcontainer\<close> the attribute \<open>container\<close>.
\<close>

record block =
  content :: string
  bcontainer :: string
  language :: string
  location :: string
  name :: string
  calling :: "string list"
  called_by :: "string list"
  btype :: string
  calling_name :: string

record container =
  blocks :: "block list"
  cname :: string
  code_dir :: string
  doc_dir :: string
  title :: string
  execute :: "string list"
  local_link :: "string list list"
  web_link :: "string list list"
  local_script :: "string list"
  web_script :: "string list"

text \<open>What the program asks the file system: \<open>os.path.isdir\<close>, \<open>os.path.exists\<close>, and the
  text that \<open>open(filename).read()\<close> returns.\<close>

record filesystem =
  path_isdir :: "string \<Rightarrow> bool"
  path_exists :: "string \<Rightarrow> bool"
  read_text :: "string \<Rightarrow> string"

definition basename :: "string \<Rightarrow> string" where
  \<comment> \<open>\<open>os.path.basename\<close>: what follows the last slash\<close>
  "basename p = rev (takeWhile (\<lambda>c. c \<noteq> CHR ''/'') (rev p))"

definition rsplit_dot :: "string \<Rightarrow> string" where
  \<comment> \<open>\<open>p.rsplit(".", 1)[0]\<close>: what precedes the last dot, all of \<open>p\<close> when it has none\<close>
  "rsplit_dot p =
     (if CHR ''.'' \<in> set p then rev (tl (dropWhile (\<lambda>c. c \<noteq> CHR ''.'') (rev p))) else p)"

definition splitext_ext :: "string \<Rightarrow> string" where
  \<comment> \<open>\<open>os.path.splitext(p)[1]\<close>: from the last dot of the base name on, unless only dots
      precede it there\<close>
  "splitext_ext p =
     (let b = basename p in
      if CHR ''.'' \<in> set b \<and> (\<exists>c \<in> set (rsplit_dot b). c \<noteq> CHR ''.'')
      then CHR ''.'' # rev (takeWhile (\<lambda>c. c \<noteq> CHR ''.'') (rev b))
      else [])"


definition Block_init :: "filesystem \<Rightarrow> string \<Rightarrow> string \<Rightarrow> error + block" where
  "Block_init fs cont cntr =
     (if path_isdir fs cntr then Inl ValueError
      else if \<not> path_exists fs cntr then Inl FileNotFoundError
      else Inr \<lparr>content = cont, bcontainer = rsplit_dot (basename cntr), language = [],
                location = [], name = [], calling = [], called_by = [], btype = [],
                calling_name = []\<rparr>)"

definition FileBlock_init ::
  "filesystem \<Rightarrow> string option \<Rightarrow> string \<Rightarrow> string \<Rightarrow> string \<Rightarrow> string \<Rightarrow> error + block" where
  \<comment> \<open>the second argument is the attribute \<open>type\<close> when the subclass has set it already\<close>
  "FileBlock_init fs has_type cont cntr lang nm =
     (case Block_init fs cont cntr of
        Inl e \<Rightarrow> Inl e
      | Inr b \<Rightarrow>
          if path_isdir fs nm then Inl ValueError
          else (case has_type of
                  None \<Rightarrow>
                    if splitext_ext nm = [] then Inl ValueError
                    else Inr (b\<lparr>language := lang, location := nm,
                                name := rsplit_dot (basename nm), btype := ''file''\<rparr>)
                | Some t \<Rightarrow>
                    Inr (b\<lparr>language := lang, location := nm,
                          name := rsplit_dot (basename nm), btype := t\<rparr>)))"

definition CodeBlock_init ::
  "filesystem \<Rightarrow> string \<Rightarrow> string \<Rightarrow> string \<Rightarrow> string \<Rightarrow> error + block" where
  "CodeBlock_init fs cont cntr lang nm = FileBlock_init fs (Some ''code'') cont cntr lang nm"

definition DocumentationBlock_init :: "filesystem \<Rightarrow> string \<Rightarrow> string \<Rightarrow> error + block" where
  "DocumentationBlock_init fs cont cntr =
     (case Block_init fs cont cntr of Inl e \<Rightarrow> Inl e | Inr b \<Rightarrow> Inr (b\<lparr>btype := ''doc''\<rparr>))"

definition Container_init :: "filesystem \<Rightarrow> string \<Rightarrow> error + container" where
  "Container_init fs nm =
     (if path_isdir fs nm then Inl ValueError
      else if \<not> path_exists fs nm then Inl FileNotFoundError
      else Inr \<lparr>blocks = [], cname = rsplit_dot (basename nm), code_dir = [], doc_dir = [],
                title = [], execute = [], local_link = [], web_link = [], local_script = [],
                web_script = []\<rparr>)"

definition add :: "container \<Rightarrow> block \<Rightarrow> container" where
  "add c b = c\<lparr>blocks := blocks c @ [b]\<rparr>"

definition set_title :: "container \<Rightarrow> string \<Rightarrow> container" where
  "set_title c t = c\<lparr>title := t\<rparr>"

definition add_llink :: "filesystem \<Rightarrow> container \<Rightarrow> string \<Rightarrow> string \<Rightarrow> error + container" where
  "add_llink fs c link_type link_address =
     (if \<not> path_exists fs link_address then Inl FileNotFoundError
      else Inr (c\<lparr>local_link := local_link c @ [[link_type, link_address]]\<rparr>))"

definition add_wlink :: "container \<Rightarrow> string \<Rightarrow> string \<Rightarrow> container" where
  "add_wlink c link_type link_address = c\<lparr>web_link := web_link c @ [[link_type, link_address]]\<rparr>"

definition set_code_dir :: "container \<Rightarrow> string \<Rightarrow> error + container" where
  "set_code_dir c dir =
     (if dir = [] then Inr c
      else if \<not> endswith dir ''/'' then Inl ValueError
      else Inr (c\<lparr>code_dir := dir\<rparr>))"

definition set_doc_dir :: "container \<Rightarrow> string \<Rightarrow> error + container" where
  "set_doc_dir c dir =
     (if dir = [] then Inr c
      else if \<not> endswith dir ''/'' then Inl ValueError
      else Inr (c\<lparr>doc_dir := dir\<rparr>))"

definition make_block ::
  "filesystem \<Rightarrow> string \<Rightarrow> string \<Rightarrow> string \<Rightarrow> string \<Rightarrow> string \<Rightarrow> error + block" where
  "make_block fs block_type cont cntr lang nm =
     (let cont' = rstrip_nl cont in
      if block_type = ''doc'' then DocumentationBlock_init fs cont' cntr
      else if block_type = ''file'' then FileBlock_init fs None cont' cntr lang nm
      else if block_type = ''code'' then CodeBlock_init fs cont' cntr lang nm
      else Inl ValueError)"

section \<open>The segmenter\<close>

definition fence :: string where
  "fence = replicate 3 (CHR 0x60)"

definition match_start :: "string \<Rightarrow> (string \<times> string) option" where
  \<comment> \<open>\<open>re.match(pattern1, line)\<close>: the fence, at most one space, a run of word characters,
      one space, a run of word characters, dots and hyphens; both runs are greedy and the
      character behind each is outside its class, so no shorter run can match\<close>
  "match_start line =
     (if \<not> prefix fence line then None
      else
        let r = drop 3 line;
            r1 = (if prefix '' '' r then tl r else r);
            g1 = takeWhile isword r1;
            r2 = dropWhile isword r1
        in if g1 = [] \<or> \<not> prefix '' '' r2 then None
           else
             let g2 = takeWhile (\<lambda>c. isword c \<or> c = CHR ''.'' \<or> c = CHR ''-'') (tl r2)
             in if g2 = [] then None else Some (g1, g2))"

definition match_end :: "string \<Rightarrow> bool" where
  \<comment> \<open>\<open>re.match(pattern2, line)\<close>\<close>
  "match_end line = prefix fence line"

fun search_ext :: "string \<Rightarrow> bool" where
  \<comment> \<open>\<open>re.search(r"\.\w+$", nm)\<close>: a dot, then word characters up to the end of the text or
      up to a newline that ends it\<close>
  "search_ext [] = False"
| "search_ext (c # cs) =
     ((c = CHR ''.'' \<and> takeWhile isword cs \<noteq> [] \<and>
       (dropWhile isword cs = [] \<or> dropWhile isword cs = [nl])) \<or> search_ext cs)"

record scan =
  s_container :: container
  s_content :: string
  s_language :: string
  s_name :: string
  s_block_type :: string

definition scan_line :: "filesystem \<Rightarrow> string \<Rightarrow> scan \<Rightarrow> string \<Rightarrow> error + scan" where
  \<comment> \<open>the body of the loop over the lines of a document\<close>
  "scan_line fs filename st line =
     (case match_start line of
        Some (g1, g2) \<Rightarrow>
          (case (if s_content st \<noteq> []
                 then (case make_block fs (s_block_type st) (s_content st) filename
                              (s_language st) (s_name st) of
                         Inl e \<Rightarrow> Inl e
                       | Inr b \<Rightarrow> Inr (add (s_container st) b))
                 else Inr (s_container st)) of
             Inl e \<Rightarrow> Inl e
           | Inr c \<Rightarrow>
               Inr \<lparr>s_container = c, s_content = [], s_language = strip g1, s_name = strip g2,
                    s_block_type = (if search_ext (strip g2) then ''file'' else ''code'')\<rparr>)
      | None \<Rightarrow>
          if match_end line then
            (case (if s_block_type st \<in> {''file'', ''code''} \<and> s_content st \<noteq> []
                   then (case make_block fs (s_block_type st) (s_content st) filename
                                (s_language st) (s_name st) of
                           Inl e \<Rightarrow> Inl e
                         | Inr b \<Rightarrow> Inr (add (s_container st) b))
                   else Inr (s_container st)) of
               Inl e \<Rightarrow> Inl e
             | Inr c \<Rightarrow>
                 Inr \<lparr>s_container = c, s_content = [], s_language = [], s_name = [],
                      s_block_type = ''doc''\<rparr>)
          else Inr (st\<lparr>s_content := s_content st @ line @ [nl]\<rparr>))"

fun scan_lines :: "filesystem \<Rightarrow> string \<Rightarrow> scan \<Rightarrow> string list \<Rightarrow> error + scan" where
  "scan_lines fs filename st [] = Inr st"
| "scan_lines fs filename st (line # ls) =
     (case scan_line fs filename st line of
        Inl e \<Rightarrow> Inl e
      | Inr st' \<Rightarrow> scan_lines fs filename st' ls)"

fun add_llinks :: "filesystem \<Rightarrow> container \<Rightarrow> string list \<Rightarrow> error + container" where
  \<comment> \<open>the loop over the \<open>@local_link\<close> values; \<open>link_parts[1]\<close> needs two tokens\<close>
  "add_llinks fs c [] = Inr c"
| "add_llinks fs c (link # ls) =
     (case split_ws link of
        t # a # _ \<Rightarrow>
          (case add_llink fs c t a of Inl e \<Rightarrow> Inl e | Inr c' \<Rightarrow> add_llinks fs c' ls)
      | _ \<Rightarrow> Inl IndexError)"

fun add_wlinks :: "container \<Rightarrow> string list \<Rightarrow> error + container" where
  "add_wlinks c [] = Inr c"
| "add_wlinks c (link # ls) =
     (case split_ws link of
        t # a # _ \<Rightarrow> add_wlinks (add_wlink c t a) ls
      | _ \<Rightarrow> Inl IndexError)"

definition extract_metadata :: "filesystem \<Rightarrow> container \<Rightarrow> string \<Rightarrow> error + container" where
  \<comment> \<open>the statements of \<open>parse_files\<close> under "Extract metadata" and "Process links"\<close>
  "extract_metadata fs c0 text =
     (let c1 = set_title c0 (extract_last_match ''@title{'' text) in
      case set_doc_dir c1 (extract_last_match ''@documentation_folder{'' text) of
        Inl e \<Rightarrow> Inl e
      | Inr c2 \<Rightarrow>
          (case set_code_dir c2 (extract_last_match ''@code_folder{'' text) of
             Inl e \<Rightarrow> Inl e
           | Inr c3 \<Rightarrow>
               let c4 = c3\<lparr>execute := findall ''@execute_end{'' text,
                            local_script := findall ''@local_script{'' text,
                            web_script := findall ''@web_script{'' text\<rparr>
               in (case add_llinks fs c4 (findall ''@local_link{'' text) of
                     Inl e \<Rightarrow> Inl e
                   | Inr c5 \<Rightarrow> add_wlinks c5 (findall ''@web_link{'' text))))"

definition parse_file :: "filesystem \<Rightarrow> string \<Rightarrow> error + container" where
  \<comment> \<open>the body of the loop of \<open>parse_files\<close> over the file names\<close>
  "parse_file fs filename =
     (case Container_init fs filename of
        Inl e \<Rightarrow> Inl e
      | Inr c0 \<Rightarrow>
          let text = read_text fs filename in
          if strip text = [] then Inl ValueError
          else
            (case extract_metadata fs c0 text of
               Inl e \<Rightarrow> Inl e
             | Inr c \<Rightarrow>
                 (case scan_lines fs filename
                         \<lparr>s_container = c, s_content = [], s_language = [], s_name = [],
                          s_block_type = ''doc''\<rparr> (split_on nl text) of
                    Inl e \<Rightarrow> Inl e
                  | Inr st \<Rightarrow>
                      if s_content st \<noteq> [] \<and> s_block_type st \<noteq> ''doc''
                      then (case make_block fs (s_block_type st) (s_content st) filename
                                   (s_language st) (s_name st) of
                              Inl e \<Rightarrow> Inl e
                            | Inr b \<Rightarrow> Inr (add (s_container st) b))
                      else Inr (s_container st))))"

fun parse_files_from ::
  "filesystem \<Rightarrow> (string \<times> container) list \<Rightarrow> string list \<Rightarrow> error + (string \<times> container) list" where
  \<comment> \<open>the dictionary \<open>containers\<close> keeps the order of insertion; a key stored again keeps
      its place\<close>
  "parse_files_from fs containers [] = Inr containers"
| "parse_files_from fs containers (filename # fns) =
     (case parse_file fs filename of
        Inl e \<Rightarrow> Inl e
      | Inr c \<Rightarrow> parse_files_from fs (AList.update (cname c) c containers) fns)"

definition parse_files :: "filesystem \<Rightarrow> string list \<Rightarrow> error + (string \<times> container) list" where
  "parse_files fs filenames = parse_files_from fs [] filenames"

section \<open>The expander\<close>

text \<open>
  A registry is a dictionary from fragment names to blocks, kept as an association list in
  the order of insertion.
\<close>

type_synonym registry = "(string \<times> block) list"

definition call_marker :: "string \<Rightarrow> string" where
  "call_marker call = ''@call{'' @ call @ ''}''"

definition error_marker :: "string \<Rightarrow> string" where
  "error_marker call = ''@error{'' @ call @ ''}''"

definition add_indent :: "string \<Rightarrow> nat \<Rightarrow> string" where
  \<comment> \<open>\<open>" " * n\<close> is empty for \<open>n \<le> 0\<close>, as the truncating subtraction makes it here\<close>
  "add_indent block_content indent_level =
     (let lines = split_on nl block_content;
          spaces = replicate (indent_level - 1) (CHR '' '')
      in join_on [nl] (hd lines # map (\<lambda>line. spaces @ line) (tl lines)))"

definition replace_call ::
  "registry \<Rightarrow> nat \<Rightarrow> string \<times> string list \<Rightarrow> string \<Rightarrow> string \<times> string list" where
  \<comment> \<open>the body of the loop over the calls of a line, on the updated line and the output\<close>
  "replace_call code_blocks indent_level st call =
     (let stripped_call = strip call in
      case map_of code_blocks stripped_call of
        Some b \<Rightarrow>
          (str_replace (call_marker call) (add_indent (content b) (indent_level + 1)) (fst st),
           snd st)
      | None \<Rightarrow>
          (str_replace (call_marker call) (error_marker call) (fst st),
           snd st @ [''ERROR: callblock not found: '' @ call]))"

definition replace_line :: "registry \<Rightarrow> string \<Rightarrow> string \<times> string list" where
  \<comment> \<open>the body of the loop over the lines: the updated line and what was printed for it\<close>
  "replace_line code_blocks line =
     foldl (replace_call code_blocks (length line - length (lstrip line))) (line, [])
       (findall ''@call{'' line)"

definition replace_pass :: "registry \<Rightarrow> string \<Rightarrow> string \<times> string list" where
  \<comment> \<open>one pass: \<open>block_text\<close> and what the pass printed\<close>
  "replace_pass code_blocks cont =
     (let rs = map (replace_line code_blocks) (split_on nl cont)
      in (join_on [nl] (map fst rs), concat (map snd rs)))"

text \<open>
  Every further pass is a call of \<open>replace_calls\<close> by the pass before it, and the
  interpreter bounds the depth of its call stack (\<open>sys.getrecursionlimit()\<close>, 1000 in
  CPython unless it is set): a call that does not fit raises \<open>RecursionError\<close>, and nothing
  in the program catches it. The first argument of the model is the number of nested calls
  of \<open>replace_calls\<close> that still fit when it is called. A pass needs the same few frames
  more for \<open>re.findall\<close>, \<open>add_indent\<close> and \<open>re.search\<close>, and it calls \<open>re.findall\<close> before
  it prints anything; the bound counts the passes that have room for these, so a pass
  either does not start or runs to its end. The result is what the call returns or raises,
  together with the lines printed.
\<close>

fun replace_calls ::
  "nat \<Rightarrow> string \<Rightarrow> registry \<Rightarrow> int \<Rightarrow> int \<Rightarrow> (error + string) \<times> string list" where
  "replace_calls 0 cont code_blocks index max_index = (Inl RecursionError, [])"
| "replace_calls (Suc stack) cont code_blocks index max_index =
     (let r = replace_pass code_blocks cont in
      if (max_index = - 1 \<or> index < max_index) \<and> re_search ''@call{'' (fst r)
      then (let r' = replace_calls stack (fst r) code_blocks (index + 1) max_index
            in (fst r', snd r @ snd r'))
      else (Inr (fst r), snd r))"

subsection \<open>Lines written as texts and markers\<close>








section \<open>The fragment registry and tangling\<close>

record litera =
  containers :: "(string \<times> container) list"
  code_blocks :: registry
  file_blocks :: registry

definition register_block :: "litera \<Rightarrow> block \<Rightarrow> litera" where
  "register_block l b =
     (if btype b = ''file'' then l\<lparr>file_blocks := AList.update (name b) b (file_blocks l)\<rparr>
      else if btype b = ''code'' then l\<lparr>code_blocks := AList.update (name b) b (code_blocks l)\<rparr>
      else l)"

definition make_blocks :: "litera \<Rightarrow> litera" where
  "make_blocks l = foldl register_block l (concat (map (\<lambda>(k, c). blocks c) (containers l)))"

definition Litera_init :: "filesystem \<Rightarrow> string list \<Rightarrow> error + litera" where
  "Litera_init fs filenames =
     (case parse_files fs filenames of
        Inl e \<Rightarrow> Inl e
      | Inr cs \<Rightarrow> Inr (make_blocks \<lparr>containers = cs, code_blocks = [], file_blocks = []\<rparr>))"

text \<open>
  \<open>write_code\<close> writes one file for each file block. The model returns what the run
  leaves behind: the files written (path and text) in the order of the writes, the lines
  printed, and the exception that ended the run, if any. Its first argument is the number
  of nested calls of \<open>replace_calls\<close> that fit when \<open>write_code\<close> calls it. A missing
  container is a \<open>KeyError\<close>. Creating the directories and writing the files are taken to
  succeed.
\<close>

record tangle =
  written :: "(string \<times> string) list"
  printed :: "string list"
  raised :: "error option"

fun write_code_from :: "nat \<Rightarrow> litera \<Rightarrow> (string \<times> block) list \<Rightarrow> tangle" where
  "write_code_from stack l [] = \<lparr>written = [], printed = [], raised = None\<rparr>"
| "write_code_from stack l ((k, b) # rest) =
     (case replace_calls stack (content b) (code_blocks l) 0 12 of
        (Inl e, out) \<Rightarrow> \<lparr>written = [], printed = out, raised = Some e\<rparr>
      | (Inr output, out) \<Rightarrow>
          (case map_of (containers l) (bcontainer b) of
             None \<Rightarrow> \<lparr>written = [], printed = out, raised = Some KeyError\<rparr>
           | Some c \<Rightarrow>
               (let t = write_code_from stack l rest
                in t\<lparr>written := (code_dir c @ location b, output) # written t,
                     printed := out @ printed t\<rparr>)))"

definition write_code :: "nat \<Rightarrow> litera \<Rightarrow> tangle" where
  "write_code stack l = write_code_from stack l (file_blocks l)"

section \<open>The cross-reference builder\<close>









subsection \<open>The call graph in the words of the specification\<close>







section \<open>Example inputs\<close>

definition fragment ::
  "string \<Rightarrow> string \<Rightarrow> string \<Rightarrow> string \<Rightarrow> string \<Rightarrow> string \<Rightarrow> block" where
  \<comment> \<open>a block as its constructor leaves it\<close>
  "fragment t cntr lang loc nm cont =
     \<lparr>content = cont, bcontainer = cntr, language = lang, location = loc, name = nm,
      calling = [], called_by = [], btype = t, calling_name = []\<rparr>"

definition demo_text :: string where
  "demo_text =
     ''@title{Demo}'' @ [nl] @ fence @ ''py main.py'' @ [nl] @ ''print(1)'' @ [nl] @
     ''@call{helper}'' @ [nl] @ fence @ [nl] @ fence @ ''py helper'' @ [nl] @ ''print(2)'' @
     [nl] @ fence"

definition demo_fs :: "string \<Rightarrow> filesystem" where
  \<comment> \<open>a file system with the one file \<open>demo.md\<close> and no directory\<close>
  "demo_fs text =
     \<lparr>path_isdir = (\<lambda>p. False), path_exists = (\<lambda>p. p = ''demo.md''),
      read_text = (\<lambda>p. text)\<rparr>"

definition demo_container :: container where
  "demo_container =
     \<lparr>blocks = [], cname = ''demo'', code_dir = [], doc_dir = [], title = [], execute = [],
      local_link = [], web_link = [], local_script = [], web_script = []\<rparr>"

definition demo_main :: block where
  "demo_main =
     fragment ''file'' ''demo'' ''py'' ''main.py'' ''main'' (''print(1)'' @ [nl] @ ''@call{helper}'')"

definition demo_helper :: block where
  "demo_helper = fragment ''code'' ''demo'' ''py'' ''helper'' ''helper'' ''print(2)''"





definition cpython_stack :: nat where
  \<comment> \<open>about what CPython's limit of 1000 frames leaves for \<open>replace_calls\<close> in a run of
      the program\<close>
  "cpython_stack = 990"







section \<open>Facts about the string functions\<close>











lemma split_on_not_Nil: "split_on sep s \<noteq> []"
  by (induction s) (auto split: list.splits)


lemma join_split: "join_on [sep] (split_on sep s) = s"
proof (induction s)
  case Nil
  then show ?case by simp
next
  case (Cons c cs)
  show ?case
  proof (cases "c = sep")
    case True
    then show ?thesis using Cons split_on_not_Nil[of sep cs]
      by (cases "split_on sep cs") auto
  next
    case False
    then show ?thesis using Cons split_on_not_Nil[of sep cs]
      by (cases "split_on sep cs"; cases "tl (split_on sep cs)") auto
  qed
qed





lemma re_search_findall: "re_search opn s \<longleftrightarrow> findall opn s \<noteq> []"
  by (induction opn s rule: findall.induct) (auto split: option.splits)

lemma until_close_append:
  "until_close u = Some (cap, rest) \<Longrightarrow> until_close (u @ x) = Some (cap, rest @ x)"
  by (induction u arbitrary: cap rest) (auto split: if_splits option.splits)

lemma split_on_hd_prefix: "split_on sep cs = l # ls \<Longrightarrow> \<exists>x. cs = l @ x"
  by (induction cs arbitrary: l ls) (auto split: if_splits list.splits)

lemma re_search_lines:
  "\<not> re_search opn src \<Longrightarrow> l \<in> set (split_on nl src) \<Longrightarrow> \<not> re_search opn l"
proof (induction src arbitrary: l)
  case Nil
  then show ?case by simp
next
  case (Cons c cs)
  from Cons.prems(1) have no_cs: "\<not> re_search opn cs"
    and no_here: "\<not> (prefix opn (c # cs) \<and> until_close (drop (length opn) (c # cs)) \<noteq> None)"
    by (auto split: if_splits)
  show ?case
  proof (cases "c = nl")
    case True
    then show ?thesis using Cons.prems(2) Cons.IH[OF no_cs] by auto
  next
    case False
    obtain h t where ht: "split_on nl cs = h # t"
      using split_on_not_Nil[of nl cs] by (cases "split_on nl cs") auto
    then obtain x where x: "cs = h @ x" using split_on_hd_prefix by blast
    have "\<not> re_search opn (c # h)"
    proof
      assume "re_search opn (c # h)"
      then consider "prefix opn (c # h) \<and> until_close (drop (length opn) (c # h)) \<noteq> None"
        | "re_search opn h"
        by (auto split: if_splits)
      then show False
      proof cases
        case 1
        then obtain cap rest where u: "until_close (drop (length opn) (c # h)) = Some (cap, rest)"
          and p: "prefix opn (c # h)" by auto
        from p have "length opn \<le> length (c # h)" by (rule prefix_length_le)
        then have "drop (length opn) (c # cs) = drop (length opn) (c # h) @ x"
          using x drop_append[of "length opn" "c # h" x] by simp
        moreover have "prefix opn (c # cs)" using p x
          by (metis append_Cons prefix_prefix)
        ultimately show False using no_here until_close_append[OF u, of x] by simp
      next
        case 2
        then show False using Cons.IH[OF no_cs, of h] ht by simp
      qed
    qed
    then show ?thesis using Cons.prems(2) Cons.IH[OF no_cs] ht False by auto
  qed
qed

lemma replace_pass_fixed:
  assumes "\<not> re_search ''@call{'' src"
  shows "replace_pass reg src = (src, [])"
proof -
  have "replace_line reg l = (l, [])" if "l \<in> set (split_on nl src)" for l
    using re_search_lines[OF assms that] by (simp add: replace_line_def re_search_findall)
  then have "map (replace_line reg) (split_on nl src) = map (\<lambda>l. (l, [])) (split_on nl src)"
    by simp
  then show ?thesis
    by (simp add: replace_pass_def Let_def comp_def join_split cong: map_cong)
qed

lemma replace_pass_cong:
  assumes "\<forall>k. map_option content (map_of reg k) = map_option content (map_of reg' k)"
  shows "replace_pass reg c = replace_pass reg' c"
proof -
  have "replace_call reg w st call = replace_call reg' w st call" for w st call
    using assms[rule_format, of "strip call"]
    by (cases "map_of reg (strip call)"; cases "map_of reg' (strip call)")
       (simp_all add: replace_call_def Let_def)
  then have "replace_call reg = replace_call reg'" by (intro ext)
  then have "replace_line reg = replace_line reg'" by (intro ext) (simp add: replace_line_def)
  then show ?thesis by (simp add: replace_pass_def)
qed


lemma add_llinks_dirs:
  "add_llinks fs c ls = Inr c' \<Longrightarrow> code_dir c' = code_dir c \<and> doc_dir c' = doc_dir c"
  by (induction ls arbitrary: c) (auto simp: add_llink_def split: list.splits sum.splits if_splits)

lemma add_wlinks_dirs:
  "add_wlinks c ls = Inr c' \<Longrightarrow> code_dir c' = code_dir c \<and> doc_dir c' = doc_dir c"
  by (induction ls arbitrary: c) (auto simp: add_wlink_def split: list.splits sum.splits if_splits)

lemma add_llinks_no_ValueError: "add_llinks fs c ls \<noteq> Inl ValueError"
  by (induction ls arbitrary: c) (auto simp: add_llink_def split: list.splits sum.splits if_splits)

lemma add_wlinks_no_ValueError: "add_wlinks c ls \<noteq> Inl ValueError"
  by (induction ls arbitrary: c) (auto simp: add_wlink_def split: list.splits sum.splits if_splits)


section \<open>Facts about the expander\<close>

subsection \<open>Texts with one marker\<close>










subsection \<open>What a pass prints\<close>





subsection \<open>The recursion\<close>

lemma replace_calls_stop:
  "\<not> ((m = - 1 \<or> i < m) \<and> re_search ''@call{'' (fst (replace_pass reg c))) \<Longrightarrow>
   replace_calls (Suc n) c reg i m = (Inr (fst (replace_pass reg c)), snd (replace_pass reg c))"
  by (auto simp: Let_def)

lemma replace_calls_fixed:
  "\<not> re_search ''@call{'' c \<Longrightarrow> replace_calls (Suc n) c reg i m = (Inr c, [])"
  by (simp add: replace_pass_fixed)


lemma replace_calls_cong:
  assumes "\<forall>k. map_option content (map_of reg k) = map_option content (map_of reg' k)"
  shows "replace_calls n c reg i m = replace_calls n c reg' i m"
proof (induction n arbitrary: c i)
  case 0
  then show ?case by simp
next
  case (Suc n)
  then show ?case by (simp add: replace_pass_cong[OF assms] Let_def)
qed








subsection \<open>Lines with several markers\<close>





















section \<open>Facts about the metadata\<close>







section \<open>Facts about the cross-reference builder\<close>



















section \<open>The claims\<close>

text \<open>
  Claim C1. The document text of the scenario parses into the file fragment \<open>main\<close> with
  content \<open>print(1)\n@call{helper}\<close> and the code fragment \<open>helper\<close> with content
  \<open>print(2)\<close>, and expanding \<open>main\<close> against the registry that holds \<open>helper\<close> gives
  exactly \<open>print(1)\nprint(2)\<close>, whenever the call of \<open>replace_calls\<close> fits the stack.
  The prose before the first fence becomes a documentation block, which is neither a file
  fragment nor a code fragment.
\<close>

theorem demo_scenario:
  "Litera_init (demo_fs demo_text) [''demo.md''] =
     Inr \<lparr>containers =
            [(''demo'', demo_container\<lparr>
                blocks := [fragment ''doc'' ''demo'' [] [] [] ''@title{Demo}'', demo_main, demo_helper],
                title := ''Demo''\<rparr>)],
          code_blocks = [(''helper'', demo_helper)],
          file_blocks = [(''main'', demo_main)]\<rparr> \<and>
   name demo_main = ''main'' \<and> btype demo_main = ''file'' \<and>
   content demo_main = ''print(1)'' @ [nl] @ ''@call{helper}'' \<and>
   name demo_helper = ''helper'' \<and> btype demo_helper = ''code'' \<and>
   content demo_helper = ''print(2)'' \<and>
   replace_calls (Suc stack) (content demo_main) [(''helper'', demo_helper)] 0 12 =
     (Inr (''print(1)'' @ [nl] @ ''print(2)''), []) \<and>
   (case Litera_init (demo_fs demo_text) [''demo.md''] of
      Inl e \<Rightarrow> None
    | Inr l \<Rightarrow> Some (write_code (Suc stack) l)) =
     Some \<lparr>written = [(''main.py'', ''print(1)'' @ [nl] @ ''print(2)'')], printed = [],
           raised = None\<rparr>"
proof -
  let ?l = "\<lparr>containers =
            [(''demo'', demo_container\<lparr>
                blocks := [fragment ''doc'' ''demo'' [] [] [] ''@title{Demo}'', demo_main, demo_helper],
                title := ''Demo''\<rparr>)],
          code_blocks = [(''helper'', demo_helper)],
          file_blocks = [(''main'', demo_main)]\<rparr>"
  let ?out = "''print(1)'' @ [nl] @ ''print(2)''"
  have l: "Litera_init (demo_fs demo_text) [''demo.md''] = Inr ?l"
    by code_simp
  have f: "name demo_main = ''main'' \<and> btype demo_main = ''file'' \<and>
           content demo_main = ''print(1)'' @ [nl] @ ''@call{helper}'' \<and>
           name demo_helper = ''helper'' \<and> btype demo_helper = ''code'' \<and>
           content demo_helper = ''print(2)''"
    by code_simp
  have p: "replace_pass [(''helper'', demo_helper)] (content demo_main) = (?out, [])"
    by code_simp
  have q: "\<not> re_search ''@call{'' ?out"
    by code_simp
  have r: "replace_calls (Suc stack) (content demo_main) [(''helper'', demo_helper)] 0 12 =
             (Inr ?out, [])"
    using replace_calls_stop[of 12 0 "[(''helper'', demo_helper)]" "content demo_main" stack] q
    unfolding p by simp
  have c: "map_of [(''demo'', demo_container\<lparr>
                blocks := [fragment ''doc'' ''demo'' [] [] [] ''@title{Demo}'', demo_main, demo_helper],
                title := ''Demo''\<rparr>)] (bcontainer demo_main) =
             Some (demo_container\<lparr>
                blocks := [fragment ''doc'' ''demo'' [] [] [] ''@title{Demo}'', demo_main, demo_helper],
                title := ''Demo''\<rparr>)"
    by code_simp
  have d: "code_dir (demo_container\<lparr>
                blocks := [fragment ''doc'' ''demo'' [] [] [] ''@title{Demo}'', demo_main, demo_helper],
                title := ''Demo''\<rparr>) @ location demo_main = ''main.py''"
    by code_simp
  have w: "write_code (Suc stack) ?l =
             \<lparr>written = [(''main.py'', ?out)], printed = [], raised = None\<rparr>"
    unfolding write_code_def
    by (simp only: litera.simps write_code_from.simps r c d prod.case sum.case option.case
          Let_def tangle.simps append_Nil2)
  show ?thesis
    unfolding l using f r w by (simp only: sum.case)
qed










text \<open>
  Claim C5. The expansion is a function of the content and of the contents of the
  registry: two registries that hold the same contents under the same names give the same
  result, whatever the other fields of their blocks are. A result in which no marker
  remains is a fixed point: expanding it again returns it unchanged and prints nothing.
\<close>

theorem expansion_deterministic:
  "((\<forall>k. map_option content (map_of reg k) = map_option content (map_of reg' k)) \<longrightarrow>
      replace_calls stack c reg i m = replace_calls stack c reg' i m) \<and>
   (fst (replace_calls stack c reg i m) = Inr t \<and> \<not> re_search ''@call{'' t \<longrightarrow>
      replace_calls (Suc stack') t reg i' m' = (Inr t, []))"
  using replace_calls_cong[of reg reg' stack c i m] replace_calls_fixed[of t stack' reg i' m']
  by blast

theorem expansion_deterministic_witness:
  "(\<forall>k. map_option content (map_of [(''helper'', demo_helper)] k) =
        map_option content (map_of [(''helper'', demo_helper\<lparr>called_by := [''x'']\<rparr>)] k)) \<and>
   replace_calls cpython_stack (content demo_main) [(''helper'', demo_helper)] 0 12 =
     (Inr (''print(1)'' @ [nl] @ ''print(2)''), []) \<and>
   \<not> re_search ''@call{'' (''print(1)'' @ [nl] @ ''print(2)'') \<and>
   replace_calls cpython_stack (content demo_main)
       [(''helper'', demo_helper\<lparr>called_by := [''x'']\<rparr>)] 0 12 =
     (Inr (''print(1)'' @ [nl] @ ''print(2)''), []) \<and>
   replace_calls (Suc 0) (''print(1)'' @ [nl] @ ''print(2)'') [(''helper'', demo_helper)] 0 12 =
     (Inr (''print(1)'' @ [nl] @ ''print(2)''), [])"
proof -
  let ?reg = "[(''helper'', demo_helper)]"
  let ?reg' = "[(''helper'', demo_helper\<lparr>called_by := [''x'']\<rparr>)]"
  let ?t = "''print(1)'' @ [nl] @ ''print(2)''"
  have h1: "\<forall>k. map_option content (map_of ?reg k) = map_option content (map_of ?reg' k)"
    by simp
  have h2: "replace_calls cpython_stack (content demo_main) ?reg 0 12 = (Inr ?t, [])"
    by code_simp
  have h3: "\<not> re_search ''@call{'' ?t"
    by code_simp
  note r = expansion_deterministic[of ?reg ?reg' cpython_stack "content demo_main" 0 12 ?t 0 0 12]
  from r h1 have a: "replace_calls cpython_stack (content demo_main) ?reg 0 12 =
                     replace_calls cpython_stack (content demo_main) ?reg' 0 12"
    by blast
  have "fst (replace_calls cpython_stack (content demo_main) ?reg 0 12) = Inr ?t"
    unfolding h2 by simp
  with r h3 have b: "replace_calls (Suc 0) ?t ?reg 0 12 = (Inr ?t, [])"
    by blast
  from h1 h2 h3 a b show ?thesis by simp
qed

text \<open>
  Claim C6, as amended. A directory value that is not empty and does not end in \<open>/\<close> makes
  \<open>set_code_dir\<close> and \<open>set_doc_dir\<close> raise \<open>ValueError\<close>; a value that ends in \<open>/\<close> is stored
  as it is; the empty value is accepted and changes nothing.
\<close>

theorem set_dir_nonempty:
  assumes "dir \<noteq> []"
  shows "(\<not> endswith dir ''/'' \<longrightarrow>
            set_code_dir c dir = Inl ValueError \<and> set_doc_dir c dir = Inl ValueError) \<and>
         (endswith dir ''/'' \<longrightarrow>
            set_code_dir c dir = Inr (c\<lparr>code_dir := dir\<rparr>) \<and>
            set_doc_dir c dir = Inr (c\<lparr>doc_dir := dir\<rparr>)) \<and>
         set_code_dir c [] = Inr c \<and> set_doc_dir c [] = Inr c"
  using assms by (simp add: set_code_dir_def set_doc_dir_def)

theorem set_dir_nonempty_witness:
  "''code'' \<noteq> [] \<and> \<not> endswith ''code'' ''/'' \<and>
   set_code_dir demo_container ''code'' = Inl ValueError \<and>
   set_doc_dir demo_container ''code'' = Inl ValueError \<and>
   ''out/src/'' \<noteq> [] \<and> endswith ''out/src/'' ''/'' \<and>
   set_code_dir demo_container ''out/src/'' = Inr (demo_container\<lparr>code_dir := ''out/src/''\<rparr>) \<and>
   set_doc_dir demo_container ''out/src/'' = Inr (demo_container\<lparr>doc_dir := ''out/src/''\<rparr>)"
  using set_dir_nonempty[of "''code''" demo_container]
        set_dir_nonempty[of "''out/src/''" demo_container]
  by (simp add: endswith_def suffix_def)

text \<open>
  Claim C6 as stated fails at the empty value: it does not end in \<open>/\<close>, and neither
  setter raises.
\<close>

theorem set_dir_nonempty_counterexample:
  "\<not> endswith [] ''/'' \<and> set_code_dir demo_container [] \<noteq> Inl ValueError \<and>
   set_doc_dir demo_container [] \<noteq> Inl ValueError"
  by (simp add: endswith_def set_code_dir_def set_doc_dir_def)

text \<open>
  Claim C9. With the empty string both setters return without raising and leave the
  container as it is; a new container has both directories empty; so a text whose last
  directory directives are absent or empty gets past the metadata without a \<open>ValueError\<close>
  and with both directories unchanged.
\<close>

theorem set_dir_empty:
  assumes "extract_last_match ''@code_folder{'' text = []"
    and "extract_last_match ''@documentation_folder{'' text = []"
  shows "set_code_dir c [] = Inr c \<and> set_doc_dir c [] = Inr c \<and>
         (\<forall>c0. Container_init fs nm = Inr c0 \<longrightarrow> code_dir c0 = [] \<and> doc_dir c0 = []) \<and>
         extract_metadata fs c text \<noteq> Inl ValueError \<and>
         (\<forall>c'. extract_metadata fs c text = Inr c' \<longrightarrow>
               code_dir c' = code_dir c \<and> doc_dir c' = doc_dir c)"
proof -
  have 1: "set_code_dir c [] = Inr c" "set_doc_dir c [] = Inr c" for c :: container
    by (simp_all add: set_code_dir_def set_doc_dir_def)
  have 2: "\<forall>c0. Container_init fs nm = Inr c0 \<longrightarrow> code_dir c0 = [] \<and> doc_dir c0 = []"
    by (auto simp: Container_init_def split: if_splits)
  have 3: "extract_metadata fs c text \<noteq> Inl ValueError"
    using assms add_llinks_no_ValueError add_wlinks_no_ValueError
    by (auto simp: extract_metadata_def 1 Let_def split: sum.splits)
  have 4: "\<forall>c'. extract_metadata fs c text = Inr c' \<longrightarrow>
               code_dir c' = code_dir c \<and> doc_dir c' = doc_dir c"
    using assms
    by (auto simp: extract_metadata_def 1 Let_def set_title_def split: sum.splits
             dest!: add_llinks_dirs add_wlinks_dirs)
  from 1 2 3 4 show ?thesis by blast
qed

theorem set_dir_empty_witness:
  "extract_last_match ''@code_folder{'' ''@title{T} @code_folder{}'' = [] \<and>
   extract_last_match ''@documentation_folder{'' ''@title{T} @code_folder{}'' = [] \<and>
   set_code_dir demo_container [] = Inr demo_container \<and>
   set_doc_dir demo_container [] = Inr demo_container \<and>
   extract_metadata (demo_fs []) demo_container ''@title{T} @code_folder{}'' =
     Inr (demo_container\<lparr>title := ''T''\<rparr>)"
proof -
  have h1: "extract_last_match ''@code_folder{'' ''@title{T} @code_folder{}'' = []"
    by code_simp
  have h2: "extract_last_match ''@documentation_folder{'' ''@title{T} @code_folder{}'' = []"
    by code_simp
  have v: "extract_metadata (demo_fs []) demo_container ''@title{T} @code_folder{}'' =
     Inr (demo_container\<lparr>title := ''T''\<rparr>)"
    by code_simp
  from set_dir_empty[OF h1 h2, of demo_container] h1 h2 v show ?thesis
    by simp
qed










end
